theory Spec2Isabelle
  imports Main "HOL-Library.Sublist"
begin

section \<open>Response writer, headers and the calls made on them\<close>

text \<open>
  Go strings and byte slices are byte sequences; both are modelled as \<open>string\<close>
  (a list of 8-bit characters). \<open>http.Header\<close> is \<open>map[string][]string\<close>. Every key
  the source uses is already in canonical form, so keys are compared as written.
\<close>

type_synonym bytes = string
type_synonym Header = "string \<rightharpoonup> string list"

definition Header_Get :: "Header \<Rightarrow> string \<Rightarrow> string" where
  "Header_Get h k = (case h k of None \<Rightarrow> [] | Some [] \<Rightarrow> [] | Some (v # _) \<Rightarrow> v)"

definition Header_Set :: "Header \<Rightarrow> string \<Rightarrow> string \<Rightarrow> Header" where
  "Header_Set h k v = h(k \<mapsto> [v])"

definition Header_Del :: "Header \<Rightarrow> string \<Rightarrow> Header" where
  "Header_Del h k = h(k := None)"

definition HeaderAcceptEncoding :: string where "HeaderAcceptEncoding = ''Accept-Encoding''"
definition HeaderContentEncoding :: string where "HeaderContentEncoding = ''Content-Encoding''"
definition HeaderContentLength :: string where "HeaderContentLength = ''Content-Length''"
definition HeaderContentType :: string where "HeaderContentType = ''Content-Type''"
definition HeaderVary :: string where "HeaderVary = ''Vary''"

text \<open>
  The response writer, the gzip stream and \<open>http.Error\<close> are collaborators outside the
  repository. The model records every call the code makes on them, in order, next to
  the header map the code reads back. \<open>HttpError msg code\<close> is the call
  \<open>http.Error(w, msg, code)\<close> of the standard library, recorded and not unfolded.
\<close>

datatype call =
    SetHeader string string
  | DelHeader string
  | WriteHeader int
  | Write bytes
  | GzipNewWriter
  | GzipWrite bytes
  | GzipClose
  | HttpError string int

record response =
  hdr :: Header
  calls :: "call list"

definition w_Set :: "string \<Rightarrow> string \<Rightarrow> response \<Rightarrow> response" where
  "w_Set k v st = st\<lparr>hdr := Header_Set (hdr st) k v, calls := calls st @ [SetHeader k v]\<rparr>"

definition w_Del :: "string \<Rightarrow> response \<Rightarrow> response" where
  "w_Del k st = st\<lparr>hdr := Header_Del (hdr st) k, calls := calls st @ [DelHeader k]\<rparr>"

definition w_WriteHeader :: "int \<Rightarrow> response \<Rightarrow> response" where
  "w_WriteHeader s st = st\<lparr>calls := calls st @ [WriteHeader s]\<rparr>"

definition w_Write :: "bytes \<Rightarrow> response \<Rightarrow> response" where
  "w_Write p st = st\<lparr>calls := calls st @ [Write p]\<rparr>"

definition http_Error :: "string \<Rightarrow> int \<Rightarrow> response \<Rightarrow> response" where
  "http_Error msg code st = st\<lparr>calls := calls st @ [HttpError msg code]\<rparr>"

definition gzip_NewWriter :: "response \<Rightarrow> response" where
  "gzip_NewWriter st = st\<lparr>calls := calls st @ [GzipNewWriter]\<rparr>"

definition gz_Write :: "bytes \<Rightarrow> response \<Rightarrow> response" where
  "gz_Write p st = st\<lparr>calls := calls st @ [GzipWrite p]\<rparr>"

definition gz_Close :: "response \<Rightarrow> response" where
  "gz_Close st = st\<lparr>calls := calls st @ [GzipClose]\<rparr>"

text \<open>The bytes handed to the underlying writer, and the bytes handed to the gzip stream.\<close>

fun written :: "call list \<Rightarrow> bytes" where
  "written [] = []"
| "written (Write p # cs) = p @ written cs"
| "written (_ # cs) = written cs"

fun compressed_input :: "call list \<Rightarrow> bytes" where
  "compressed_input [] = []"
| "compressed_input (GzipWrite p # cs) = p @ compressed_input cs"
| "compressed_input (_ # cs) = compressed_input cs"

text \<open>The calls made after the gzip stream was first closed.\<close>

definition after_finalization :: "call list \<Rightarrow> call list" where
  "after_finalization cs = drop 1 (dropWhile ((\<noteq>) GzipClose) cs)"

section \<open>The compression filter\<close>

text \<open>\<open>strings.Contains\<close>: some suffix of \<open>s\<close> starts with \<open>substr\<close>.\<close>

fun Contains :: "string \<Rightarrow> string \<Rightarrow> bool" where
  "Contains [] substr = (substr = [])"
| "Contains (c # cs) substr = (prefix substr (c # cs) \<or> Contains cs substr)"

record request =
  req_Header :: Header

text \<open>
  \<open>gzipResponseWriter\<close> embeds the original writer and overrides \<open>Write\<close> only.
  \<open>http.DetectContentType\<close> is the parameter \<open>detect\<close>.
\<close>

definition gzipResponseWriter_Write :: "(bytes \<Rightarrow> string) \<Rightarrow> bytes \<Rightarrow> response \<Rightarrow> response" where
  "gzipResponseWriter_Write detect p st =
     (let st1 = (if length (Header_Get (hdr st) HeaderContentType) = 0
                 then w_Set HeaderContentType (detect p) st else st)
      in gz_Write p st1)"

text \<open>
  Modelled from the spec: the host framework's request context (\<open>Context\<close>, with
  \<open>MapTo\<close> and \<open>Next\<close>) is not among the sources. The context holds the writer that
  downstream handlers are given and the rest of the chain. One run of the downstream
  handlers is the finite sequence of calls they make on the writer they are given,
  possibly ended by a panic.
\<close>

datatype writer = Original | GzipResponseWriter

datatype outcome = Returned | Panicked

datatype action =
    DoSetHeader string string
  | DoDelHeader string
  | DoWriteHeader int
  | DoWrite bytes
  | DoPanic

record Context =
  mapped :: writer
  rest :: "action list"

fun perform :: "(bytes \<Rightarrow> string) \<Rightarrow> writer \<Rightarrow> action \<Rightarrow> response \<Rightarrow> response" where
  "perform detect w (DoSetHeader k v) st = w_Set k v st"
| "perform detect w (DoDelHeader k) st = w_Del k st"
| "perform detect w (DoWriteHeader s) st = w_WriteHeader s st"
| "perform detect Original (DoWrite p) st = w_Write p st"
| "perform detect GzipResponseWriter (DoWrite p) st = gzipResponseWriter_Write detect p st"
| "perform detect w DoPanic st = st"

fun run_handlers :: "(bytes \<Rightarrow> string) \<Rightarrow> writer \<Rightarrow> action list \<Rightarrow> response \<Rightarrow> outcome \<times> response" where
  "run_handlers detect w [] st = (Returned, st)"
| "run_handlers detect w (DoPanic # as) st = (Panicked, st)"
| "run_handlers detect w (a # as) st = run_handlers detect w as (perform detect w a st)"

text \<open>The bytes the downstream handlers write before they return or panic.\<close>

fun payload :: "action list \<Rightarrow> bytes" where
  "payload [] = []"
| "payload (DoPanic # as) = []"
| "payload (DoWrite p # as) = p @ payload as"
| "payload (_ # as) = payload as"

definition MapTo :: "writer \<Rightarrow> Context \<Rightarrow> Context" where
  "MapTo w c = c\<lparr>mapped := w\<rparr>"

definition Next :: "(bytes \<Rightarrow> string) \<Rightarrow> Context \<Rightarrow> response \<Rightarrow> outcome \<times> Context \<times> response" where
  "Next detect c st =
     (case run_handlers detect (mapped c) (rest c) st of
        (out, st') \<Rightarrow> (out, c\<lparr>rest := []\<rparr>, st'))"

text \<open>
  \<open>serveGzip\<close>. The deferred \<open>gz.Close()\<close> runs when the function returns and when a
  panic of the downstream chain unwinds through it; the statement after \<open>c.Next()\<close> is
  reached only when the chain returns.
\<close>

definition serveGzip :: "(bytes \<Rightarrow> string) \<Rightarrow> request \<Rightarrow> Context \<Rightarrow> response \<Rightarrow> outcome \<times> Context \<times> response" where
  "serveGzip detect r c st =
     (if \<not> Contains (Header_Get (req_Header r) HeaderAcceptEncoding) ''gzip''
      then (Returned, c, st)
      else
        let st1 = w_Set HeaderContentEncoding ''gzip'' st;
            st2 = w_Set HeaderVary HeaderAcceptEncoding st1;
            st3 = gzip_NewWriter st2;
            c1 = MapTo GzipResponseWriter c
        in (case Next detect c1 st3 of
              (Panicked, c2, st4) \<Rightarrow> (Panicked, c2, gz_Close st4)
            | (Returned, c2, st4) \<Rightarrow> (Returned, c2, gz_Close (w_Del ''Content-Length'' st4))))"

text \<open>
  Modelled from the spec: the framework invokes the filter and, when the filter returns
  without having run the chain itself, continues with the rest of the chain.
\<close>

definition handle :: "(bytes \<Rightarrow> string) \<Rightarrow> request \<Rightarrow> Context \<Rightarrow> response \<Rightarrow> outcome \<times> Context \<times> response" where
  "handle detect r c st =
     (case serveGzip detect r c st of
        (Panicked, c', st') \<Rightarrow> (Panicked, c', st')
      | (Returned, c', st') \<Rightarrow> Next detect c' st')"

section \<open>The render helper\<close>

definition ContentType :: string where "ContentType = ''Content-Type''"
definition ContentLength :: string where "ContentLength = ''Content-Length''"
definition ContentBinary :: string where "ContentBinary = ''application/octet-stream''"
definition ContentJSON :: string where "ContentJSON = ''application/json''"
definition ContentHTML :: string where "ContentHTML = ''text/html''"
definition ContentXHTML :: string where "ContentXHTML = ''application/xhtml+xml''"
definition ContentXML :: string where "ContentXML = ''text/xml''"
definition defaultCharset :: string where "defaultCharset = ''UTF-8''"

record Delims =
  Left :: string
  Right :: string

text \<open>
  A template function is kept as data. The two built-in helpers and the two closures of
  \<open>addYield\<close> are constructors; a helper supplied through \<open>Funcs\<close> is represented by
  what it returns. \<open>Markup\<close> is a value of type \<open>template.HTML\<close>: markup that is not
  escaped again; \<open>Plain\<close> is a value of type \<open>string\<close>.
\<close>

datatype tvalue = Plain string | Markup string

datatype 'v tfunc =
    helper_yield
  | helper_current
  | layout_yield string 'v
  | layout_current string
  | custom "tvalue \<times> string option"

type_synonym 'v FuncMap = "string \<rightharpoonup> 'v tfunc"

record 'v RenderOptions =
  Directory :: string
  Layout :: string
  Extensions :: "string list"
  Funcs :: "'v FuncMap list"
  Delims :: Delims
  Charset :: string
  IndentJSON :: bool
  IndentXML :: bool
  PrefixJSON :: bytes
  PrefixXML :: bytes
  HTMLContentType :: string

text \<open>The field \<open>Layout\<close> of \<open>HTMLRenderOptions\<close>.\<close>

record HTMLRenderOptions =
  HTML_Layout :: string

text \<open>
  The template set: its name and delimiters, the templates parsed into it (name and
  source text, the latest definition first) and the function table shared by all of them.
\<close>

record 'v Template =
  t_name :: string
  t_delims :: Delims
  t_parsed :: "(string \<times> string) list"
  t_funcs :: "'v FuncMap"

text \<open>\<open>Render\<close> without the embedded writer (the \<open>response\<close> is passed along) and the request.\<close>

record 'v Render =
  r_t :: "'v Template"
  opt :: "'v RenderOptions"
  compiledCharset :: string

definition helperFuncs :: "'v FuncMap" where
  "helperFuncs = [''yield'' \<mapsto> helper_yield, ''current'' \<mapsto> helper_current]"

definition prepareCharset :: "string \<Rightarrow> string" where
  "prepareCharset charset =
     (if length charset \<noteq> 0 then ''; charset='' @ charset else ''; charset='' @ defaultCharset)"

text \<open>The zero value of \<open>RenderOptions\<close>.\<close>

definition zero_RenderOptions :: "'v RenderOptions" where
  "zero_RenderOptions =
     \<lparr>Directory = [], Layout = [], Extensions = [], Funcs = [],
      Delims = \<lparr>Left = [], Right = []\<rparr>, Charset = [],
      IndentJSON = False, IndentXML = False, PrefixJSON = [], PrefixXML = [],
      HTMLContentType = []\<rparr>"

definition prepareRenderOptions :: "'v RenderOptions list \<Rightarrow> 'v RenderOptions" where
  "prepareRenderOptions options =
     (let opt0 = (if length options > 0 then hd options else zero_RenderOptions);
          opt1 = (if length (Directory opt0) = 0 then opt0\<lparr>Directory := ''templates''\<rparr> else opt0);
          opt2 = (if length (Extensions opt1) = 0 then opt1\<lparr>Extensions := [''.html'']\<rparr> else opt1);
          opt3 = (if length (HTMLContentType opt2) = 0 then opt2\<lparr>HTMLContentType := ContentHTML\<rparr> else opt2)
      in opt3)"

subsection \<open>Template discovery\<close>

text \<open>\<open>strings.Index\<close>, \<open>strings.Split\<close> and \<open>strings.Join\<close>, for a separator of one byte.\<close>

fun Index :: "string \<Rightarrow> char \<Rightarrow> int" where
  "Index [] c = - 1"
| "Index (x # xs) c =
     (if x = c then 0 else (let i = Index xs c in if i = - 1 then - 1 else i + 1))"

fun Split :: "string \<Rightarrow> char \<Rightarrow> string list" where
  "Split [] c = [[]]"
| "Split (x # xs) c =
     (if x = c then [] # Split xs c
      else (case Split xs c of [] \<Rightarrow> [[x]] | y # ys \<Rightarrow> (x # y) # ys))"

fun Join :: "string list \<Rightarrow> string \<Rightarrow> string" where
  "Join [] sep = []"
| "Join [x] sep = x"
| "Join (x # xs) sep = x @ sep @ Join xs sep"

definition getExt :: "string \<Rightarrow> string" where
  "getExt s =
     (if Index s (CHR ''.'') = - 1 then []
      else ''.'' @ Join (drop 1 (Split s (CHR ''.''))) ''.'')"

text \<open>\<open>filepath.ToSlash\<close> on a platform whose path separator is \<open>sep\<close>.\<close>

definition ToSlash :: "char \<Rightarrow> string \<Rightarrow> string" where
  "ToSlash sep path = map (\<lambda>c. if c = sep then CHR ''/'' else c) path"

text \<open>\<open>Template.Funcs\<close>: the entries of the given table are added to the shared one.\<close>

definition Template_Funcs :: "'v FuncMap \<Rightarrow> 'v Template \<Rightarrow> 'v Template" where
  "Template_Funcs fm tp = tp\<lparr>t_funcs := t_funcs tp ++ fm\<rparr>"

text \<open>
  What \<open>filepath.Walk\<close> hands to the callback of \<open>compile\<close>, one entry per visited
  path: either \<open>filepath.Rel\<close> fails, or it gives the relative path, listed with the
  result of \<open>ioutil.ReadFile\<close> on the path (\<open>None\<close> when the read fails). The parser is
  the parameter \<open>parses\<close>; a failed read and a failed parse panic.
\<close>

datatype entry = RelError | Visited string "bytes option"

datatype failure = ReadFailed string | ParseFailed string

text \<open>The loop over \<open>options.Extensions\<close> for one visited path, left at the first match.\<close>

fun add_file :: "(Delims \<Rightarrow> string \<Rightarrow> bool) \<Rightarrow> 'v RenderOptions \<Rightarrow> char \<Rightarrow> string \<Rightarrow> bytes option
    \<Rightarrow> string list \<Rightarrow> 'v Template \<Rightarrow> failure + 'v Template" where
  "add_file parses options sep r content [] tp = Inr tp"
| "add_file parses options sep r content (extension # exts) tp =
     (let ext = getExt r in
      if ext = extension then
        (case content of
           None \<Rightarrow> Inl (ReadFailed r)
         | Some buf \<Rightarrow>
             let name = take (length r - length ext) r;
                 tp1 = fold Template_Funcs (Funcs options) tp;
                 tp2 = Template_Funcs helperFuncs tp1
             in if parses (t_delims tp2) buf
                then Inr (tp2\<lparr>t_parsed := (ToSlash sep name, buf) # t_parsed tp2\<rparr>)
                else Inl (ParseFailed (ToSlash sep name)))
      else add_file parses options sep r content exts tp)"

fun walk :: "(Delims \<Rightarrow> string \<Rightarrow> bool) \<Rightarrow> 'v RenderOptions \<Rightarrow> char \<Rightarrow> entry list
    \<Rightarrow> 'v Template \<Rightarrow> failure + 'v Template" where
  "walk parses options sep [] tp = Inr tp"
| "walk parses options sep (RelError # es) tp = Inr tp"
| "walk parses options sep (Visited r content # es) tp =
     (case add_file parses options sep r content (Extensions options) tp of
        Inl e \<Rightarrow> Inl e
      | Inr tp' \<Rightarrow> walk parses options sep es tp')"

definition compile :: "(Delims \<Rightarrow> string \<Rightarrow> bool) \<Rightarrow> char \<Rightarrow> entry list \<Rightarrow> 'v RenderOptions
    \<Rightarrow> failure + 'v Template" where
  "compile parses sep entries options =
     (let dir = Directory options;
          tp = \<lparr>t_name = dir, t_delims = Delims options, t_parsed = [], t_funcs = Map.empty\<rparr>
      in if parses (t_delims tp) ''Martini''
         then walk parses options sep entries (tp\<lparr>t_parsed := [(dir, ''Martini'')]\<rparr>)
         else Inl (ParseFailed dir))"

text \<open>The paths the callback of \<open>compile\<close> gets before \<open>filepath.Rel\<close> first fails.\<close>

fun visited_paths :: "entry list \<Rightarrow> string list" where
  "visited_paths [] = []"
| "visited_paths (RelError # es) = []"
| "visited_paths (Visited r content # es) = r # visited_paths es"

text \<open>The names under which \<open>compile\<close> registered templates, in the order of the walk.\<close>

definition template_names :: "'v Template \<Rightarrow> string list" where
  "template_names tp = rev (map fst (t_parsed tp))"

text \<open>
  The extension as the specification words it, for comparison with \<open>getExt\<close>:
  everything after the first dot, empty when there is no dot.
\<close>

definition after_first_dot :: "string \<Rightarrow> string" where
  "after_first_dot s = drop 1 (dropWhile ((\<noteq>) (CHR ''.'')) s)"

text \<open>
  \<open>Renderer\<close> and \<open>Renderor\<close> build the \<open>Render\<close> value the same way: the prepared
  options, the charset suffix and a template set compiled from them (compiled anew in
  development, a clone of the set compiled once otherwise).
\<close>

definition Renderer :: "(Delims \<Rightarrow> string \<Rightarrow> bool) \<Rightarrow> char \<Rightarrow> entry list \<Rightarrow> 'v RenderOptions list
    \<Rightarrow> failure + 'v Render" where
  "Renderer parses sep entries options =
     (let po = prepareRenderOptions options;
          cs = prepareCharset (Charset po)
      in case compile parses sep entries po of
           Inl e \<Rightarrow> Inl e
         | Inr tc \<Rightarrow> Inr \<lparr>r_t = tc, opt = po, compiledCharset = cs\<rparr>)"

subsection \<open>Writing responses\<close>

text \<open>
  \<open>json.Marshal\<close> and \<open>json.MarshalIndent\<close> are the parameters \<open>Marshal\<close> and
  \<open>MarshalIndent\<close>; \<open>Inl\<close> carries the text of the error.
\<close>

definition JSON :: "('a \<Rightarrow> string + bytes) \<Rightarrow> ('a \<Rightarrow> string \<Rightarrow> string \<Rightarrow> string + bytes)
    \<Rightarrow> 'v Render \<Rightarrow> int \<Rightarrow> 'a \<Rightarrow> response \<Rightarrow> response" where
  "JSON Marshal MarshalIndent r status v st =
     (case (if IndentJSON (opt r) then MarshalIndent v [] ''  '' else Marshal v) of
        Inl err \<Rightarrow> http_Error err 500 st
      | Inr result \<Rightarrow>
          let st1 = w_Set ContentType (ContentJSON @ compiledCharset r) st;
              st2 = w_WriteHeader status st1;
              st3 = (if length (PrefixJSON (opt r)) > 0 then w_Write (PrefixJSON (opt r)) st2 else st2)
          in w_Write result st3)"

text \<open>
  \<open>Template.ExecuteTemplate\<close> is the parameter \<open>ExecuteTemplate\<close>: from the template
  set, a name and a value it gives the bytes put into the buffer and the error, if any.
\<close>

definition execute :: "('v Template \<Rightarrow> string \<Rightarrow> 'v \<Rightarrow> bytes \<times> string option)
    \<Rightarrow> 'v Render \<Rightarrow> string \<Rightarrow> 'v \<Rightarrow> bytes \<times> string option" where
  "execute ExecuteTemplate r name binding = ExecuteTemplate (r_t r) name binding"

definition addYield :: "'v Render \<Rightarrow> string \<Rightarrow> 'v \<Rightarrow> 'v Render" where
  "addYield r name binding =
     r\<lparr>r_t := Template_Funcs
          [''yield'' \<mapsto> layout_yield name binding, ''current'' \<mapsto> layout_current name] (r_t r)\<rparr>"

text \<open>What a template function returns when the engine calls it while rendering with \<open>r\<close>.\<close>

fun call_func :: "('v Template \<Rightarrow> string \<Rightarrow> 'v \<Rightarrow> bytes \<times> string option)
    \<Rightarrow> 'v Render \<Rightarrow> 'v tfunc \<Rightarrow> tvalue \<times> string option" where
  "call_func X r helper_yield = (Plain [], Some ''yield called with no layout defined'')"
| "call_func X r helper_current = (Plain [], None)"
| "call_func X r (layout_yield name binding) =
     (case execute X r name binding of (buf, err) \<Rightarrow> (Markup buf, err))"
| "call_func X r (layout_current name) = (Plain name, None)"
| "call_func X r (custom res) = res"

definition prepareHTMLRenderOptions :: "'v Render \<Rightarrow> HTMLRenderOptions list \<Rightarrow> HTMLRenderOptions" where
  "prepareHTMLRenderOptions r htmlOpt =
     (if length htmlOpt > 0 then hd htmlOpt else \<lparr>HTML_Layout = Layout (opt r)\<rparr>)"

definition renderBytes :: "('v Template \<Rightarrow> string \<Rightarrow> 'v \<Rightarrow> bytes \<times> string option)
    \<Rightarrow> 'v Render \<Rightarrow> string \<Rightarrow> 'v \<Rightarrow> HTMLRenderOptions list \<Rightarrow> 'v Render \<times> (string + bytes)" where
  "renderBytes X r name binding htmlOpt =
     (let ho = prepareHTMLRenderOptions r htmlOpt;
          r1 = (if length (HTML_Layout ho) > 0 then addYield r name binding else r);
          name1 = (if length (HTML_Layout ho) > 0 then HTML_Layout ho else name)
      in case execute X r1 name1 binding of
           (out, Some err) \<Rightarrow> (r1, Inl err)
         | (out, None) \<Rightarrow> (r1, Inr out))"

text \<open>\<open>io.Copy\<close> from a \<open>bytes.Buffer\<close>: one \<open>Write\<close> of its contents, none when it is empty.\<close>

definition io_Copy :: "bytes \<Rightarrow> response \<Rightarrow> response" where
  "io_Copy out st = (if length out > 0 then w_Write out st else st)"

definition HTML :: "('v Template \<Rightarrow> string \<Rightarrow> 'v \<Rightarrow> bytes \<times> string option)
    \<Rightarrow> 'v Render \<Rightarrow> int \<Rightarrow> string \<Rightarrow> 'v \<Rightarrow> HTMLRenderOptions list \<Rightarrow> response
    \<Rightarrow> 'v Render \<times> response" where
  "HTML X r status name binding htmlOpt st =
     (case renderBytes X r name binding htmlOpt of
        (r1, Inl err) \<Rightarrow> (r1, http_Error err 500 st)
      | (r1, Inr out) \<Rightarrow>
          let st1 = w_Set ContentType (HTMLContentType (opt r1) @ compiledCharset r1) st;
              st2 = w_WriteHeader status st1
          in (r1, io_Copy out st2))"

definition WriteData :: "int \<Rightarrow> bytes \<Rightarrow> response \<Rightarrow> response" where
  "WriteData status v st =
     (let st1 = (if Header_Get (hdr st) ContentType = [] then w_Set ContentType ContentBinary st else st);
          st2 = w_WriteHeader status st1
      in w_Write v st2)"

definition Error :: "int \<Rightarrow> string list \<Rightarrow> response \<Rightarrow> response" where
  "Error status message st =
     (let st1 = w_WriteHeader status st
      in if length message > 0 then w_Write (hd message) st1 else st1)"

definition Status :: "int \<Rightarrow> response \<Rightarrow> response" where
  "Status status st = w_WriteHeader status st"

section \<open>Example inputs\<close>

text \<open>
  A stand-in for \<open>http.DetectContentType\<close> in the concrete examples below: it
  answers what the sniffer answers for plain text.
\<close>

definition detect_plain :: "bytes \<Rightarrow> string" where
  "detect_plain p = ''text/plain; charset=utf-8''"

text \<open>
  Stand-ins for the JSON encoder and for the template engine in the concrete examples
  below. The encoder knows strings and fails on a channel, as \<open>encoding/json\<close> does; the
  engine gives back the source text of the named template and fails when the name is not
  defined.
\<close>

datatype gvalue = GoString string | GoChan

fun example_Marshal :: "gvalue \<Rightarrow> string + bytes" where
  "example_Marshal (GoString s) = Inr ([CHR 0x22] @ s @ [CHR 0x22])"
| "example_Marshal GoChan = Inl ''json: unsupported type: chan int''"

definition example_MarshalIndent :: "gvalue \<Rightarrow> string \<Rightarrow> string \<Rightarrow> string + bytes" where
  "example_MarshalIndent v pre indent = example_Marshal v"

definition example_ExecuteTemplate :: "string Template \<Rightarrow> string \<Rightarrow> string \<Rightarrow> bytes \<times> string option" where
  "example_ExecuteTemplate tp name v =
     (case map_of (t_parsed tp) name of
        None \<Rightarrow> ([], Some (''html/template: '' @ name @ '' is undefined''))
      | Some src \<Rightarrow> (src, None))"

definition example_Render :: "string Render" where
  "example_Render =
     \<lparr>r_t = \<lparr>t_name = ''templates'', t_delims = \<lparr>Left = [], Right = []\<rparr>,
             t_parsed = [(''layout'', ''head {{yield}} foot''), (''content'', ''<h1>{{.}}</h1>''),
                         (''templates'', ''Martini'')],
             t_funcs = helperFuncs\<rparr>,
      opt = (prepareRenderOptions [])\<lparr>Layout := ''layout''\<rparr>,
      compiledCharset = prepareCharset []\<rparr>"

section \<open>Properties of the compression filter\<close>

lemma Contains_sublist: "Contains s substr = sublist substr s"
  by (induction s) (auto simp: sublist_Cons_right)

lemma written_append: "written (xs @ ys) = written xs @ written ys"
  by (induction xs rule: written.induct) simp_all

lemma compressed_input_append: "compressed_input (xs @ ys) = compressed_input xs @ compressed_input ys"
  by (induction xs rule: compressed_input.induct) simp_all

lemma gzipResponseWriter_Write_calls:
  "calls (gzipResponseWriter_Write detect p st) =
     calls st @ (if Header_Get (hdr st) HeaderContentType = [] then [SetHeader HeaderContentType (detect p)] else [])
       @ [GzipWrite p]"
  by (simp add: gzipResponseWriter_Write_def gz_Write_def w_Set_def)

lemma perform_trace:
  "\<exists>ds. calls (perform detect w a st) = calls st @ ds \<and> GzipClose \<notin> set ds
     \<and> written ds = (case (w, a) of (Original, DoWrite p) \<Rightarrow> p | _ \<Rightarrow> [])
     \<and> compressed_input ds = (case (w, a) of (GzipResponseWriter, DoWrite p) \<Rightarrow> p | _ \<Rightarrow> [])"
  by (cases a; cases w)
     (simp_all add: w_Set_def w_Del_def w_WriteHeader_def w_Write_def gzipResponseWriter_Write_calls)

lemma run_handlers_trace:
  "\<exists>ds. calls (snd (run_handlers detect w as st)) = calls st @ ds \<and> GzipClose \<notin> set ds
     \<and> written ds = (case w of Original \<Rightarrow> payload as | GzipResponseWriter \<Rightarrow> [])
     \<and> compressed_input ds = (case w of Original \<Rightarrow> [] | GzipResponseWriter \<Rightarrow> payload as)"
proof (induction as arbitrary: st)
  case Nil
  show ?case by (simp split: writer.split)
next
  case (Cons a as)
  show ?case
  proof (cases "a = DoPanic")
    case True
    then show ?thesis by (simp split: writer.split)
  next
    case False
    then have step: "run_handlers detect w (a # as) st = run_handlers detect w as (perform detect w a st)"
      by (cases a) simp_all
    obtain d1 where d1: "calls (perform detect w a st) = calls st @ d1" "GzipClose \<notin> set d1"
      "written d1 = (case (w, a) of (Original, DoWrite p) \<Rightarrow> p | _ \<Rightarrow> [])"
      "compressed_input d1 = (case (w, a) of (GzipResponseWriter, DoWrite p) \<Rightarrow> p | _ \<Rightarrow> [])"
      using perform_trace by blast
    obtain d2 where d2: "calls (snd (run_handlers detect w as (perform detect w a st))) = calls (perform detect w a st) @ d2"
      "GzipClose \<notin> set d2"
      "written d2 = (case w of Original \<Rightarrow> payload as | GzipResponseWriter \<Rightarrow> [])"
      "compressed_input d2 = (case w of Original \<Rightarrow> [] | GzipResponseWriter \<Rightarrow> payload as)"
      using Cons.IH by blast
    have "calls (snd (run_handlers detect w (a # as) st)) = calls st @ (d1 @ d2)"
      using step d1(1) d2(1) by simp
    moreover have "GzipClose \<notin> set (d1 @ d2)" using d1(2) d2(2) by simp
    moreover have "written (d1 @ d2) = (case w of Original \<Rightarrow> payload (a # as) | GzipResponseWriter \<Rightarrow> [])"
      using False d1(3) d2(3) by (cases a; cases w) (simp_all add: written_append)
    moreover have "compressed_input (d1 @ d2) = (case w of Original \<Rightarrow> [] | GzipResponseWriter \<Rightarrow> payload (a # as))"
      using False d1(4) d2(4) by (cases a; cases w) (simp_all add: compressed_input_append)
    ultimately show ?thesis by blast
  qed
qed

lemma run_handlers_outcome:
  "fst (run_handlers detect w as st) = (if DoPanic \<in> set as then Panicked else Returned)"
  by (induction detect w as st rule: run_handlers.induct) simp_all

lemma serveGzip_unfold:
  assumes "Contains (Header_Get (req_Header r) HeaderAcceptEncoding) ''gzip''"
  shows "\<exists>ds. GzipClose \<notin> set ds
      \<and> written ds = [] \<and> compressed_input ds = payload (rest c)
      \<and> serveGzip detect r c st =
         (if DoPanic \<in> set (rest c) then Panicked else Returned,
          c\<lparr>mapped := GzipResponseWriter, rest := []\<rparr>,
          snd (snd (serveGzip detect r c st)))
      \<and> calls (snd (snd (serveGzip detect r c st))) =
          calls st @ [SetHeader HeaderContentEncoding ''gzip'', SetHeader HeaderVary HeaderAcceptEncoding, GzipNewWriter]
            @ ds @ (if DoPanic \<in> set (rest c) then [GzipClose] else [DelHeader ''Content-Length'', GzipClose])
      \<and> (DoPanic \<notin> set (rest c) \<longrightarrow> hdr (snd (snd (serveGzip detect r c st))) ''Content-Length'' = None)"
proof -
  define st3 where "st3 = gzip_NewWriter (w_Set HeaderVary HeaderAcceptEncoding (w_Set HeaderContentEncoding ''gzip'' st))"
  have c3: "calls st3 = calls st @ [SetHeader HeaderContentEncoding ''gzip'', SetHeader HeaderVary HeaderAcceptEncoding, GzipNewWriter]"
    by (simp add: st3_def gzip_NewWriter_def w_Set_def)
  obtain out st4 where run: "run_handlers detect GzipResponseWriter (rest c) st3 = (out, st4)"
    by (cases "run_handlers detect GzipResponseWriter (rest c) st3")
  have out: "out = (if DoPanic \<in> set (rest c) then Panicked else Returned)"
    using run_handlers_outcome [of detect GzipResponseWriter "rest c" st3] run by simp
  obtain ds where ds: "calls st4 = calls st3 @ ds" "GzipClose \<notin> set ds" "written ds = []"
    "compressed_input ds = payload (rest c)"
    using run_handlers_trace [of detect GzipResponseWriter "rest c" st3] run by auto
  have sg: "serveGzip detect r c st =
      (out, c\<lparr>mapped := GzipResponseWriter, rest := []\<rparr>,
       if out = Panicked then gz_Close st4 else gz_Close (w_Del ''Content-Length'' st4))"
    using assms run
    by (cases out) (simp_all add: serveGzip_def Let_def Next_def MapTo_def st3_def)
  show ?thesis
    apply (rule exI [of _ ds])
    using ds c3 out sg
    by (simp add: gz_Close_def w_Del_def Header_Del_def)
qed



text \<open>
  The filter reads the header with \<open>Header.Get\<close>, which gives its first value only.
  A request whose \<open>Accept-Encoding\<close> header carries \<open>gzip\<close> in a later value is
  not compressed: the filter returns with the response and the context as they were, and
  the chain writes to the original writer.
\<close>

theorem serveGzip_later_value_counterexample:
  "req_Header \<lparr>req_Header = [''Accept-Encoding'' \<mapsto> [''deflate'', ''gzip'']]\<rparr> ''Accept-Encoding'' =
     Some [''deflate'', ''gzip'']
   \<and> Contains ''gzip'' ''gzip''
   \<and> serveGzip detect_plain \<lparr>req_Header = [''Accept-Encoding'' \<mapsto> [''deflate'', ''gzip'']]\<rparr>
         \<lparr>mapped = Original, rest = [DoWrite ''hello'']\<rparr> \<lparr>hdr = Map.empty, calls = []\<rparr>
       = (Returned, \<lparr>mapped = Original, rest = [DoWrite ''hello'']\<rparr>, \<lparr>hdr = Map.empty, calls = []\<rparr>)
   \<and> calls (snd (snd (handle detect_plain \<lparr>req_Header = [''Accept-Encoding'' \<mapsto> [''deflate'', ''gzip'']]\<rparr>
         \<lparr>mapped = Original, rest = [DoWrite ''hello'']\<rparr> \<lparr>hdr = Map.empty, calls = []\<rparr>)))
       = [Write ''hello'']"
  by (simp add: serveGzip_def handle_def Next_def Header_Get_def HeaderAcceptEncoding_def w_Write_def)

text \<open>
  C1, as the code has it. When the first value of the request's \<open>Accept-Encoding\<close>
  header contains \<open>gzip\<close>, the filter's first two calls set \<open>Content-Encoding: gzip\<close> and
  \<open>Vary: Accept-Encoding\<close>, before anything the downstream chain does; the context
  then maps the wrapper; nothing the chain writes reaches the underlying writer directly,
  and all of it, in order, is handed to the gzip stream. The wrapper's \<open>Write\<close> sets
  \<open>Content-Type\<close> to the sniffed type of the chunk whenever \<open>Content-Type\<close> reads as
  empty, and only forwards the chunk to the stream otherwise.
\<close>

theorem serveGzip_accepted:
  assumes "Contains (Header_Get (req_Header r) HeaderAcceptEncoding) ''gzip''"
  shows "prefix (calls st @ [SetHeader HeaderContentEncoding ''gzip'', SetHeader HeaderVary HeaderAcceptEncoding])
           (calls (snd (snd (serveGzip detect r c st))))
       \<and> mapped (fst (snd (serveGzip detect r c st))) = GzipResponseWriter
       \<and> written (calls (snd (snd (serveGzip detect r c st)))) = written (calls st)
       \<and> compressed_input (calls (snd (snd (serveGzip detect r c st)))) =
           compressed_input (calls st) @ payload (rest c)
       \<and> (\<forall>p s. Header_Get (hdr s) HeaderContentType = [] \<longrightarrow>
             Header_Get (hdr (gzipResponseWriter_Write detect p s)) HeaderContentType = detect p
           \<and> calls (gzipResponseWriter_Write detect p s) =
               calls s @ [SetHeader HeaderContentType (detect p), GzipWrite p])
       \<and> (\<forall>p s. Header_Get (hdr s) HeaderContentType \<noteq> [] \<longrightarrow>
             hdr (gzipResponseWriter_Write detect p s) = hdr s
           \<and> calls (gzipResponseWriter_Write detect p s) = calls s @ [GzipWrite p])"
proof -
  obtain ds where ds: "written ds = []" "compressed_input ds = payload (rest c)"
    "serveGzip detect r c st =
       (if DoPanic \<in> set (rest c) then Panicked else Returned,
        c\<lparr>mapped := GzipResponseWriter, rest := []\<rparr>, snd (snd (serveGzip detect r c st)))"
    "calls (snd (snd (serveGzip detect r c st))) =
       calls st @ [SetHeader HeaderContentEncoding ''gzip'', SetHeader HeaderVary HeaderAcceptEncoding, GzipNewWriter]
         @ ds @ (if DoPanic \<in> set (rest c) then [GzipClose] else [DelHeader ''Content-Length'', GzipClose])"
    using serveGzip_unfold [OF assms, of c detect st] by blast
  have 1: "prefix (calls st @ [SetHeader HeaderContentEncoding ''gzip'', SetHeader HeaderVary HeaderAcceptEncoding])
             (calls (snd (snd (serveGzip detect r c st))))"
    unfolding ds(4) by (simp add: prefix_def)
  have 2: "mapped (fst (snd (serveGzip detect r c st))) = GzipResponseWriter"
    by (subst ds(3)) simp
  have 3: "written (calls (snd (snd (serveGzip detect r c st)))) = written (calls st)"
    unfolding ds(4) by (simp add: written_append ds(1))
  have 4: "compressed_input (calls (snd (snd (serveGzip detect r c st)))) =
             compressed_input (calls st) @ payload (rest c)"
    unfolding ds(4) by (simp add: compressed_input_append ds(2))
  have 5: "\<forall>p s. Header_Get (hdr s) HeaderContentType = [] \<longrightarrow>
             Header_Get (hdr (gzipResponseWriter_Write detect p s)) HeaderContentType = detect p
           \<and> calls (gzipResponseWriter_Write detect p s) =
               calls s @ [SetHeader HeaderContentType (detect p), GzipWrite p]"
    by (simp add: gzipResponseWriter_Write_def gz_Write_def w_Set_def Header_Set_def Header_Get_def)
  have 6: "\<forall>p s. Header_Get (hdr s) HeaderContentType \<noteq> [] \<longrightarrow>
             hdr (gzipResponseWriter_Write detect p s) = hdr s
           \<and> calls (gzipResponseWriter_Write detect p s) = calls s @ [GzipWrite p]"
    by (simp add: gzipResponseWriter_Write_def gz_Write_def)
  from 1 2 3 4 5 6 show ?thesis by blast
qed

theorem serveGzip_accepted_witness:
  "Contains (Header_Get (req_Header \<lparr>req_Header = [''Accept-Encoding'' \<mapsto> [''deflate, gzip'']]\<rparr>) HeaderAcceptEncoding) ''gzip''
   \<and> compressed_input (calls (snd (snd (serveGzip detect_plain
         \<lparr>req_Header = [''Accept-Encoding'' \<mapsto> [''deflate, gzip'']]\<rparr>
         \<lparr>mapped = Original, rest = [DoWriteHeader 200, DoWrite ''hello '', DoWrite ''world'']\<rparr>
         \<lparr>hdr = Map.empty, calls = []\<rparr>)))) = ''hello world''
   \<and> written (calls (snd (snd (serveGzip detect_plain
         \<lparr>req_Header = [''Accept-Encoding'' \<mapsto> [''deflate, gzip'']]\<rparr>
         \<lparr>mapped = Original, rest = [DoWriteHeader 200, DoWrite ''hello '', DoWrite ''world'']\<rparr>
         \<lparr>hdr = Map.empty, calls = []\<rparr>)))) = []
   \<and> Header_Get (hdr (gzipResponseWriter_Write detect_plain ''hello '' \<lparr>hdr = Map.empty, calls = []\<rparr>))
         HeaderContentType = ''text/plain; charset=utf-8''"
proof -
  have h: "Contains (Header_Get (req_Header \<lparr>req_Header = [''Accept-Encoding'' \<mapsto> [''deflate, gzip'']]\<rparr>) HeaderAcceptEncoding) ''gzip''"
    by (simp add: Header_Get_def HeaderAcceptEncoding_def)
  have e: "Header_Get (hdr \<lparr>hdr = Map.empty, calls = []\<rparr>) HeaderContentType = []"
    by (simp add: Header_Get_def)
  show ?thesis
    using h e serveGzip_accepted [OF h, of "\<lparr>hdr = Map.empty, calls = []\<rparr>" detect_plain
        "\<lparr>mapped = Original, rest = [DoWriteHeader 200, DoWrite ''hello '', DoWrite ''world'']\<rparr>"]
    by (simp add: detect_plain_def)
qed

text \<open>
  C2. When the first value of \<open>Accept-Encoding\<close> does not contain \<open>gzip\<close> (the
  comparison is by bytes, so \<open>GZIP\<close> does not count), the filter returns with the
  response and the context exactly as they were: no header is touched and the writer is
  not wrapped. The chain then runs on the writer that was mapped before, and on the
  original writer every chunk it writes is passed on as it is.
\<close>

theorem serveGzip_not_accepted:
  assumes "\<not> Contains (Header_Get (req_Header r) HeaderAcceptEncoding) ''gzip''"
  shows "serveGzip detect r c st = (Returned, c, st)
       \<and> handle detect r c st = Next detect c st
       \<and> (mapped c = Original \<longrightarrow>
            written (calls (snd (snd (handle detect r c st)))) = written (calls st) @ payload (rest c)
          \<and> compressed_input (calls (snd (snd (handle detect r c st)))) = compressed_input (calls st))"
proof -
  have 1: "serveGzip detect r c st = (Returned, c, st)"
    using assms by (simp add: serveGzip_def)
  then have 2: "handle detect r c st = Next detect c st"
    by (simp add: handle_def)
  have 3: "written (calls (snd (snd (handle detect r c st)))) = written (calls st) @ payload (rest c)
      \<and> compressed_input (calls (snd (snd (handle detect r c st)))) = compressed_input (calls st)"
    if o: "mapped c = Original"
  proof -
    obtain ds where ds: "calls (snd (run_handlers detect Original (rest c) st)) = calls st @ ds"
      "written ds = payload (rest c)" "compressed_input ds = []"
      using run_handlers_trace [of detect Original "rest c" st] by auto
    have "snd (snd (handle detect r c st)) = snd (run_handlers detect Original (rest c) st)"
      unfolding 2 using o by (simp add: Next_def split: prod.split)
    then show ?thesis using ds by (simp add: written_append compressed_input_append)
  qed
  from 1 2 3 show ?thesis by blast
qed

theorem serveGzip_not_accepted_witness:
  "\<not> Contains (Header_Get (req_Header \<lparr>req_Header = [''Accept-Encoding'' \<mapsto> [''GZIP, deflate'']]\<rparr>) HeaderAcceptEncoding) ''gzip''
   \<and> mapped \<lparr>mapped = Original, rest = [DoWriteHeader 200, DoWrite ''hello '', DoWrite ''world'']\<rparr> = Original
   \<and> serveGzip detect_plain \<lparr>req_Header = [''Accept-Encoding'' \<mapsto> [''GZIP, deflate'']]\<rparr>
         \<lparr>mapped = Original, rest = [DoWriteHeader 200, DoWrite ''hello '', DoWrite ''world'']\<rparr>
         \<lparr>hdr = Map.empty, calls = []\<rparr>
       = (Returned, \<lparr>mapped = Original, rest = [DoWriteHeader 200, DoWrite ''hello '', DoWrite ''world'']\<rparr>,
          \<lparr>hdr = Map.empty, calls = []\<rparr>)
   \<and> written (calls (snd (snd (handle detect_plain \<lparr>req_Header = [''Accept-Encoding'' \<mapsto> [''GZIP, deflate'']]\<rparr>
         \<lparr>mapped = Original, rest = [DoWriteHeader 200, DoWrite ''hello '', DoWrite ''world'']\<rparr>
         \<lparr>hdr = Map.empty, calls = []\<rparr>)))) = ''hello world''"
proof -
  have h: "\<not> Contains (Header_Get (req_Header \<lparr>req_Header = [''Accept-Encoding'' \<mapsto> [''GZIP, deflate'']]\<rparr>) HeaderAcceptEncoding) ''gzip''"
    by (simp add: Header_Get_def HeaderAcceptEncoding_def)
  show ?thesis
    using h serveGzip_not_accepted [OF h, of detect_plain
        "\<lparr>mapped = Original, rest = [DoWriteHeader 200, DoWrite ''hello '', DoWrite ''world'']\<rparr>"
        "\<lparr>hdr = Map.empty, calls = []\<rparr>"]
    by (simp add: Next_def w_Write_def w_WriteHeader_def)
qed

text \<open>
  The deletion of \<open>Content-Length\<close> is not made after the stream is closed: when the
  chain returns, the deletion is the call before the deferred close, and nothing follows
  the close. When the chain panics the header is still there after the filter unwinds.
\<close>

theorem serveGzip_finalization_counterexample:
  "DelHeader ''Content-Length'' \<notin> set (after_finalization (calls (snd (snd (serveGzip detect_plain
         \<lparr>req_Header = [''Accept-Encoding'' \<mapsto> [''gzip'']]\<rparr>
         \<lparr>mapped = Original, rest = [DoSetHeader ''Content-Length'' ''5'', DoWrite ''hello'']\<rparr>
         \<lparr>hdr = Map.empty, calls = []\<rparr>)))))
   \<and> calls (snd (snd (serveGzip detect_plain
         \<lparr>req_Header = [''Accept-Encoding'' \<mapsto> [''gzip'']]\<rparr>
         \<lparr>mapped = Original, rest = [DoSetHeader ''Content-Length'' ''5'', DoWrite ''hello'']\<rparr>
         \<lparr>hdr = Map.empty, calls = []\<rparr>))) =
       [SetHeader ''Content-Encoding'' ''gzip'', SetHeader ''Vary'' ''Accept-Encoding'', GzipNewWriter,
        SetHeader ''Content-Length'' ''5'', SetHeader ''Content-Type'' ''text/plain; charset=utf-8'',
        GzipWrite ''hello'', DelHeader ''Content-Length'', GzipClose]
   \<and> hdr (snd (snd (serveGzip detect_plain
         \<lparr>req_Header = [''Accept-Encoding'' \<mapsto> [''gzip'']]\<rparr>
         \<lparr>mapped = Original, rest = [DoSetHeader ''Content-Length'' ''5'', DoPanic]\<rparr>
         \<lparr>hdr = Map.empty, calls = []\<rparr>))) ''Content-Length'' = Some [''5'']"
  by (simp add: serveGzip_def Header_Get_def HeaderAcceptEncoding_def HeaderContentEncoding_def
      HeaderVary_def HeaderContentType_def Let_def Next_def MapTo_def w_Set_def w_Del_def
      gzip_NewWriter_def gz_Close_def gz_Write_def gzipResponseWriter_Write_def Header_Set_def
      Header_Del_def detect_plain_def after_finalization_def)

text \<open>
  C3, as the code has it. For a request that accepts gzip the stream is closed exactly
  once, as the last call of the filter and after everything the downstream chain did,
  whether the chain returns or panics. When the chain returns, \<open>Content-Length\<close> is
  deleted immediately before that close and is absent afterwards.
\<close>

theorem serveGzip_finalizes:
  assumes "Contains (Header_Get (req_Header r) HeaderAcceptEncoding) ''gzip''"
  shows "\<exists>ds. GzipClose \<notin> set ds
       \<and> calls (snd (snd (serveGzip detect r c st))) =
           calls st @ [SetHeader HeaderContentEncoding ''gzip'', SetHeader HeaderVary HeaderAcceptEncoding, GzipNewWriter]
             @ ds @ (if fst (serveGzip detect r c st) = Panicked then [GzipClose]
                     else [DelHeader ''Content-Length'', GzipClose])
       \<and> (fst (serveGzip detect r c st) = Returned \<longrightarrow>
             hdr (snd (snd (serveGzip detect r c st))) ''Content-Length'' = None)
       \<and> (fst (serveGzip detect r c st) = Panicked \<longleftrightarrow> DoPanic \<in> set (rest c))"
proof -
  obtain ds where ds: "GzipClose \<notin> set ds"
    "serveGzip detect r c st =
       (if DoPanic \<in> set (rest c) then Panicked else Returned,
        c\<lparr>mapped := GzipResponseWriter, rest := []\<rparr>, snd (snd (serveGzip detect r c st)))"
    "calls (snd (snd (serveGzip detect r c st))) =
       calls st @ [SetHeader HeaderContentEncoding ''gzip'', SetHeader HeaderVary HeaderAcceptEncoding, GzipNewWriter]
         @ ds @ (if DoPanic \<in> set (rest c) then [GzipClose] else [DelHeader ''Content-Length'', GzipClose])"
    "DoPanic \<notin> set (rest c) \<longrightarrow> hdr (snd (snd (serveGzip detect r c st))) ''Content-Length'' = None"
    using serveGzip_unfold [OF assms, of c detect st] by blast
  have out: "fst (serveGzip detect r c st) = (if DoPanic \<in> set (rest c) then Panicked else Returned)"
    by (subst ds(2)) simp
  show ?thesis
    apply (rule exI [of _ ds])
    using ds(1,3,4) out by simp
qed

theorem serveGzip_finalizes_witness:
  "Contains (Header_Get (req_Header \<lparr>req_Header = [''Accept-Encoding'' \<mapsto> [''gzip'']]\<rparr>) HeaderAcceptEncoding) ''gzip''
   \<and> last (calls (snd (snd (serveGzip detect_plain \<lparr>req_Header = [''Accept-Encoding'' \<mapsto> [''gzip'']]\<rparr>
         \<lparr>mapped = Original, rest = [DoSetHeader ''Content-Length'' ''5'', DoWrite ''hello'', DoPanic]\<rparr>
         \<lparr>hdr = Map.empty, calls = []\<rparr>)))) = GzipClose
   \<and> fst (serveGzip detect_plain \<lparr>req_Header = [''Accept-Encoding'' \<mapsto> [''gzip'']]\<rparr>
         \<lparr>mapped = Original, rest = [DoSetHeader ''Content-Length'' ''5'', DoWrite ''hello'', DoPanic]\<rparr>
         \<lparr>hdr = Map.empty, calls = []\<rparr>) = Panicked"
proof -
  have h: "Contains (Header_Get (req_Header \<lparr>req_Header = [''Accept-Encoding'' \<mapsto> [''gzip'']]\<rparr>) HeaderAcceptEncoding) ''gzip''"
    by (simp add: Header_Get_def HeaderAcceptEncoding_def)
  show ?thesis
    using h serveGzip_finalizes [OF h, of detect_plain
        "\<lparr>mapped = Original, rest = [DoSetHeader ''Content-Length'' ''5'', DoWrite ''hello'', DoPanic]\<rparr>"
        "\<lparr>hdr = Map.empty, calls = []\<rparr>"]
    by auto
qed

section \<open>Properties of the render helper\<close>

subsection \<open>Path extensions\<close>

lemma Index_lower: "- 1 \<le> Index s c"
  by (induction s) (simp_all add: Let_def)

lemma Index_absent: "Index s c = - 1 \<longleftrightarrow> c \<notin> set s"
proof (induction s)
  case Nil
  show ?case by simp
next
  case (Cons x xs)
  have "- 1 \<le> Index xs c" by (rule Index_lower)
  then have "Index xs c + 1 \<noteq> - 1" by arith
  with Cons show ?case by (auto simp: Let_def)
qed

lemma Split_not_Nil: "Split s c \<noteq> []"
  by (induction s) (simp_all split: list.split)

lemma Join_Cons: "ys \<noteq> [] \<Longrightarrow> Join (y # ys) sep = y @ sep @ Join ys sep"
  by (cases ys) simp_all

lemma Join_Split: "Join (Split s c) [c] = s"
proof (induction s)
  case Nil
  show ?case by simp
next
  case (Cons x xs)
  show ?case
  proof (cases "x = c")
    case True
    then show ?thesis using Cons by (simp add: Join_Cons Split_not_Nil)
  next
    case False
    obtain y ys where sp: "Split xs c = y # ys"
      using Split_not_Nil [of xs c] by (cases "Split xs c") auto
    show ?thesis
    proof (cases "ys = []")
      case True
      then show ?thesis using False sp Cons by simp
    next
      case ne: False
      then show ?thesis using False sp Cons by (simp add: Join_Cons)
    qed
  qed
qed

lemma Join_tail_Split:
  "c \<in> set s \<Longrightarrow> Join (drop 1 (Split s c)) [c] = drop 1 (dropWhile ((\<noteq>) c) s)"
proof (induction s)
  case Nil
  then show ?case by simp
next
  case (Cons x xs)
  show ?case
  proof (cases "x = c")
    case True
    then show ?thesis by (simp add: Join_Split)
  next
    case False
    then have "c \<in> set xs" using Cons.prems by auto
    then have ih: "Join (drop 1 (Split xs c)) [c] = drop 1 (dropWhile ((\<noteq>) c) xs)"
      by (rule Cons.IH)
    obtain y ys where sp: "Split xs c = y # ys"
      using Split_not_Nil [of xs c] by (cases "Split xs c") auto
    show ?thesis using False sp ih by auto
  qed
qed

lemma getExt_dropWhile: "getExt s = dropWhile ((\<noteq>) (CHR ''.'')) s"
proof (cases "CHR ''.'' \<in> set s")
  case False
  then have d: "dropWhile ((\<noteq>) (CHR ''.'')) s = []" by (auto simp: dropWhile_eq_Nil_conv)
  have "getExt s = []" using False by (simp add: getExt_def Index_absent)
  then show ?thesis by (simp only: d)
next
  case True
  then have "dropWhile ((\<noteq>) (CHR ''.'')) s \<noteq> []" by (auto simp: dropWhile_eq_Nil_conv)
  moreover have "hd (dropWhile ((\<noteq>) (CHR ''.'')) s) = CHR ''.''"
    using True hd_dropWhile [of "(\<noteq>) (CHR ''.'')" s] \<open>dropWhile ((\<noteq>) (CHR ''.'')) s \<noteq> []\<close> by auto
  ultimately have "dropWhile ((\<noteq>) (CHR ''.'')) s = CHR ''.'' # drop 1 (dropWhile ((\<noteq>) (CHR ''.'')) s)"
    by (cases "dropWhile ((\<noteq>) (CHR ''.'')) s") auto
  moreover have "getExt s = CHR ''.'' # Join (drop 1 (Split s (CHR ''.''))) ''.''"
    using True by (simp add: getExt_def Index_absent)
  ultimately show ?thesis using Join_tail_Split [OF True] by simp
qed

lemma strip_getExt: "take (length r - length (getExt r)) r = takeWhile ((\<noteq>) (CHR ''.'')) r"
proof -
  have "length r = length (takeWhile ((\<noteq>) (CHR ''.'')) r) + length (dropWhile ((\<noteq>) (CHR ''.'')) r)"
    by (metis length_append takeWhile_dropWhile_id)
  then have "length r - length (getExt r) = length (takeWhile ((\<noteq>) (CHR ''.'')) r)"
    by (simp add: getExt_dropWhile)
  then show ?thesis
    by (metis append_eq_conv_conj takeWhile_dropWhile_id)
qed

subsection \<open>Discovery\<close>

lemma Template_Funcs_parsed: "t_parsed (Template_Funcs fm tp) = t_parsed tp"
  by (simp add: Template_Funcs_def)

lemma fold_Template_Funcs_parsed: "t_parsed (fold Template_Funcs fms tp) = t_parsed tp"
  by (induction fms arbitrary: tp) (simp_all add: Template_Funcs_parsed)

lemma add_file_names:
  assumes "add_file parses options sep r content exts tp = Inr tp'"
  shows "map fst (t_parsed tp') =
           (if getExt r \<in> set exts then [ToSlash sep (take (length r - length (getExt r)) r)] else [])
             @ map fst (t_parsed tp)"
  using assms
proof (induction exts)
  case Nil
  then show ?case by simp
next
  case (Cons e es)
  show ?case
  proof (cases "getExt r = e")
    case True
    with Cons.prems show ?thesis
      by (auto simp: Let_def Template_Funcs_parsed fold_Template_Funcs_parsed
          split: option.splits if_splits)
  next
    case False
    with Cons show ?thesis by (auto simp: Let_def)
  qed
qed

lemma walk_names:
  assumes "walk parses options sep es tp = Inr tp'"
  shows "rev (map fst (t_parsed tp')) =
           rev (map fst (t_parsed tp)) @
           map (\<lambda>r. ToSlash sep (take (length r - length (getExt r)) r))
             (filter (\<lambda>r. getExt r \<in> set (Extensions options)) (visited_paths es))"
  using assms
proof (induction es arbitrary: tp)
  case Nil
  then show ?case by simp
next
  case (Cons e es)
  show ?case
  proof (cases e)
    case RelError
    with Cons.prems show ?thesis by simp
  next
    case (Visited r content)
    with Cons.prems obtain tp1 where
      a: "add_file parses options sep r content (Extensions options) tp = Inr tp1"
      and w: "walk parses options sep es tp1 = Inr tp'"
      by (auto split: sum.splits)
    from add_file_names [OF a] Cons.IH [OF w] Visited show ?thesis by simp
  qed
qed

text \<open>
  The extension is not what follows the first dot: the dot belongs to it. Read without
  the dot, the extension of \<open>hello.html\<close> is not in the default allowlist, while the one
  \<open>getExt\<close> computes is.
\<close>

theorem getExt_counterexample:
  "getExt ''test.tmpl'' \<noteq> after_first_dot ''test.tmpl''
   \<and> getExt ''hello.html'' \<in> set (Extensions (prepareRenderOptions ([] :: string RenderOptions list)))
   \<and> after_first_dot ''hello.html'' \<notin> set (Extensions (prepareRenderOptions ([] :: string RenderOptions list)))"
  by (simp add: getExt_def after_first_dot_def prepareRenderOptions_def zero_RenderOptions_def Let_def)

text \<open>
  C9, as the code has it. The extension of a visited path is its part from the first dot
  on, that dot included (empty when there is no dot). When \<open>compile\<close> returns, the names of
  the template set are the directory's name, for the initial template, followed in the
  order of the walk by one name for each visited path whose extension equals an entry of
  the allowlist: the path cut before its first dot, with the path separator turned into
  a slash.
\<close>

theorem compile_template_names:
  assumes "compile parses sep entries options = Inr tp"
  shows "template_names tp =
           Directory options #
           map (\<lambda>r. ToSlash sep (take (length r - length (getExt r)) r))
             (filter (\<lambda>r. getExt r \<in> set (Extensions options)) (visited_paths entries))
       \<and> (\<forall>r. getExt r = dropWhile ((\<noteq>) (CHR ''.'')) r)
       \<and> (\<forall>r. take (length r - length (getExt r)) r = takeWhile ((\<noteq>) (CHR ''.'')) r)"
proof -
  from assms have w: "walk parses options sep entries
      \<lparr>t_name = Directory options, t_delims = Delims options,
       t_parsed = [(Directory options, ''Martini'')], t_funcs = Map.empty\<rparr> = Inr tp"
    by (simp add: compile_def Let_def split: if_splits)
  have "template_names tp =
           Directory options #
           map (\<lambda>r. ToSlash sep (take (length r - length (getExt r)) r))
             (filter (\<lambda>r. getExt r \<in> set (Extensions options)) (visited_paths entries))"
    using walk_names [OF w] by (simp add: template_names_def rev_map)
  then show ?thesis using getExt_dropWhile strip_getExt by blast
qed

theorem compile_template_names_witness:
  "\<exists>tp. compile (\<lambda>d s. True) (CHR ''/'')
       [Visited ''.'' None, Visited ''admin'' None, Visited ''admin/index.html'' (Some ''<h1>Admin</h1>''),
        Visited ''hello.html'' (Some ''<h1>Hello</h1>''), Visited ''notes.txt'' (Some ''n''),
        Visited ''test.go.html'' (Some ''t'')]
       (prepareRenderOptions ([] :: string RenderOptions list)) = Inr tp
     \<and> template_names tp = [''templates'', ''admin/index'', ''hello'']"
proof -
  define es where "es = [Visited ''.'' None, Visited ''admin'' None, Visited ''admin/index.html'' (Some ''<h1>Admin</h1>''),
        Visited ''hello.html'' (Some ''<h1>Hello</h1>''), Visited ''notes.txt'' (Some ''n''),
        Visited ''test.go.html'' (Some ''t'')]"
  define po where "po = prepareRenderOptions ([] :: string RenderOptions list)"
  have po: "Extensions po = [''.html'']" "Directory po = ''templates''"
    by (simp_all add: po_def prepareRenderOptions_def zero_RenderOptions_def Let_def)
  obtain tp where c: "compile (\<lambda>d s. True) (CHR ''/'') es po = Inr tp"
    by (simp add: compile_def es_def po Let_def getExt_dropWhile)
  have "template_names tp = [''templates'', ''admin/index'', ''hello'']"
    using compile_template_names [OF c]
    by (simp add: es_def po getExt_dropWhile ToSlash_def)
  then show ?thesis using c unfolding es_def po_def by blast
qed

subsection \<open>JSON\<close>

text \<open>
  C4. When the encoder chosen by \<open>IndentJSON\<close> fails, the only call \<open>JSON\<close> makes is
  \<open>http.Error\<close> with the error text and 500: neither the content type nor the given
  status is written. When it succeeds, \<open>JSON\<close> sets \<open>Content-Type\<close> to
  \<open>application/json\<close> followed by the charset suffix, writes the given status, writes
  the prefix when it is not empty, and writes the encoded value.
\<close>

theorem JSON_response:
  "((if IndentJSON (opt r) then MarshalIndent v [] ''  '' else Marshal v) = Inl err \<longrightarrow>
      JSON Marshal MarshalIndent r status v st = st\<lparr>calls := calls st @ [HttpError err 500]\<rparr>)
   \<and> ((if IndentJSON (opt r) then MarshalIndent v [] ''  '' else Marshal v) = Inr result \<longrightarrow>
        calls (JSON Marshal MarshalIndent r status v st) =
          calls st @ [SetHeader ContentType (ContentJSON @ compiledCharset r), WriteHeader status]
            @ (if PrefixJSON (opt r) = [] then [] else [Write (PrefixJSON (opt r))])
            @ [Write result]
      \<and> hdr (JSON Marshal MarshalIndent r status v st) =
          (hdr st)(ContentType \<mapsto> [ContentJSON @ compiledCharset r]))"
  by (simp add: JSON_def http_Error_def w_Set_def w_WriteHeader_def w_Write_def Header_Set_def Let_def)

theorem JSON_response_witness:
  "calls (JSON example_Marshal example_MarshalIndent example_Render 300 (GoString ''hello'')
       \<lparr>hdr = Map.empty, calls = []\<rparr>) =
     [SetHeader ''Content-Type'' ''application/json; charset=UTF-8'', WriteHeader 300,
      Write (CHR 0x22 # ''hello'' @ [CHR 0x22])]
   \<and> calls (JSON example_Marshal example_MarshalIndent example_Render 300 GoChan
       \<lparr>hdr = Map.empty, calls = []\<rparr>) = [HttpError ''json: unsupported type: chan int'' 500]"
proof -
  have i: "\<not> IndentJSON (opt example_Render)" and p: "PrefixJSON (opt example_Render) = []"
    and c: "compiledCharset example_Render = ''; charset=UTF-8''"
    by (simp_all add: example_Render_def prepareRenderOptions_def zero_RenderOptions_def Let_def
        prepareCharset_def defaultCharset_def)
  have ok: "(if IndentJSON (opt example_Render) then example_MarshalIndent (GoString ''hello'') [] ''  ''
             else example_Marshal (GoString ''hello'')) = Inr (CHR 0x22 # ''hello'' @ [CHR 0x22])"
    using i by simp
  have bad: "(if IndentJSON (opt example_Render) then example_MarshalIndent GoChan [] ''  ''
             else example_Marshal GoChan) = Inl ''json: unsupported type: chan int''"
    using i by simp
  show ?thesis
    using JSON_response [of example_Render example_MarshalIndent "GoString ''hello''" example_Marshal
        "''json: unsupported type: chan int''" 300 "\<lparr>hdr = Map.empty, calls = []\<rparr>"
        "CHR 0x22 # ''hello'' @ [CHR 0x22]"]
      JSON_response [of example_Render example_MarshalIndent GoChan example_Marshal
        "''json: unsupported type: chan int''" 300 "\<lparr>hdr = Map.empty, calls = []\<rparr>"
        "CHR 0x22 # ''hello'' @ [CHR 0x22]"]
      ok bad p c
    by (simp add: ContentType_def ContentJSON_def)
qed

subsection \<open>HTML\<close>

lemma renderBytes_result:
  "renderBytes X r name v htmlOpt =
     (let lay = HTML_Layout (prepareHTMLRenderOptions r htmlOpt);
          r1 = (if lay \<noteq> [] then addYield r name v else r);
          name1 = (if lay \<noteq> [] then lay else name)
      in (r1, case X (r_t r1) name1 v of (out, Some err) \<Rightarrow> Inl err | (out, None) \<Rightarrow> Inr out))"
  by (simp add: renderBytes_def execute_def Let_def split: prod.split option.split)

text \<open>
  C5. The effective layout is that of the first call-site option when one is given, and
  the configured \<open>Layout\<close> otherwise. When it is not empty, \<open>renderBytes\<close> registers
  \<open>yield\<close>, which renders the named template with the value and returns the output as
  markup, and \<open>current\<close>, which returns the template's name, leaves the other functions
  as they are, and executes the layout. When it is empty, the named template is executed
  and the function table is not touched.
\<close>

theorem renderBytes_layout:
  "HTML_Layout (prepareHTMLRenderOptions r htmlOpt) =
     (case htmlOpt of [] \<Rightarrow> Layout (opt r) | ho # _ \<Rightarrow> HTML_Layout ho)
   \<and> (HTML_Layout (prepareHTMLRenderOptions r htmlOpt) \<noteq> [] \<longrightarrow>
        t_funcs (r_t (fst (renderBytes X r name v htmlOpt))) =
          (t_funcs (r_t r))(''yield'' \<mapsto> layout_yield name v, ''current'' \<mapsto> layout_current name)
      \<and> call_func X (fst (renderBytes X r name v htmlOpt)) (layout_yield name v) =
          (Markup (fst (X (r_t (fst (renderBytes X r name v htmlOpt))) name v)),
           snd (X (r_t (fst (renderBytes X r name v htmlOpt))) name v))
      \<and> call_func X (fst (renderBytes X r name v htmlOpt)) (layout_current name) = (Plain name, None)
      \<and> snd (renderBytes X r name v htmlOpt) =
          (case X (r_t (fst (renderBytes X r name v htmlOpt)))
                  (HTML_Layout (prepareHTMLRenderOptions r htmlOpt)) v of
             (out, Some err) \<Rightarrow> Inl err | (out, None) \<Rightarrow> Inr out))
   \<and> (HTML_Layout (prepareHTMLRenderOptions r htmlOpt) = [] \<longrightarrow>
        renderBytes X r name v htmlOpt =
          (r, case X (r_t r) name v of (out, Some err) \<Rightarrow> Inl err | (out, None) \<Rightarrow> Inr out))"
proof -
  have 1: "HTML_Layout (prepareHTMLRenderOptions r htmlOpt) =
     (case htmlOpt of [] \<Rightarrow> Layout (opt r) | ho # _ \<Rightarrow> HTML_Layout ho)"
    by (cases htmlOpt) (simp_all add: prepareHTMLRenderOptions_def)
  have 3: "renderBytes X r name v htmlOpt =
          (r, case X (r_t r) name v of (out, Some err) \<Rightarrow> Inl err | (out, None) \<Rightarrow> Inr out)"
    if "HTML_Layout (prepareHTMLRenderOptions r htmlOpt) = []"
    using that by (simp add: renderBytes_result)
  have 2: "t_funcs (r_t (fst (renderBytes X r name v htmlOpt))) =
          (t_funcs (r_t r))(''yield'' \<mapsto> layout_yield name v, ''current'' \<mapsto> layout_current name)
      \<and> call_func X (fst (renderBytes X r name v htmlOpt)) (layout_yield name v) =
          (Markup (fst (X (r_t (fst (renderBytes X r name v htmlOpt))) name v)),
           snd (X (r_t (fst (renderBytes X r name v htmlOpt))) name v))
      \<and> call_func X (fst (renderBytes X r name v htmlOpt)) (layout_current name) = (Plain name, None)
      \<and> snd (renderBytes X r name v htmlOpt) =
          (case X (r_t (fst (renderBytes X r name v htmlOpt)))
                  (HTML_Layout (prepareHTMLRenderOptions r htmlOpt)) v of
             (out, Some err) \<Rightarrow> Inl err | (out, None) \<Rightarrow> Inr out)"
    if l: "HTML_Layout (prepareHTMLRenderOptions r htmlOpt) \<noteq> []"
  proof -
    have f: "fst (renderBytes X r name v htmlOpt) = addYield r name v"
      using l by (simp add: renderBytes_result Let_def)
    have s: "snd (renderBytes X r name v htmlOpt) =
        (case X (r_t (addYield r name v)) (HTML_Layout (prepareHTMLRenderOptions r htmlOpt)) v of
           (out, Some err) \<Rightarrow> Inl err | (out, None) \<Rightarrow> Inr out)"
      using l by (simp add: renderBytes_result Let_def)
    have t: "t_funcs (r_t (addYield r name v)) =
        (t_funcs (r_t r))(''yield'' \<mapsto> layout_yield name v, ''current'' \<mapsto> layout_current name)"
      by (simp add: addYield_def Template_Funcs_def)
    have y: "call_func X (addYield r name v) (layout_yield name v) =
        (Markup (fst (X (r_t (addYield r name v)) name v)), snd (X (r_t (addYield r name v)) name v))"
      by (simp add: execute_def split: prod.split)
    show ?thesis unfolding f using s t y by simp
  qed
  from 1 2 3 show ?thesis by blast
qed

theorem renderBytes_layout_witness:
  "HTML_Layout (prepareHTMLRenderOptions example_Render []) = ''layout''
   \<and> snd (renderBytes example_ExecuteTemplate example_Render ''content'' ''jeremy'' []) =
       Inr ''head {{yield}} foot''
   \<and> t_funcs (r_t (fst (renderBytes example_ExecuteTemplate example_Render ''content'' ''jeremy'' [])))
       ''yield'' = Some (layout_yield ''content'' ''jeremy'')
   \<and> call_func example_ExecuteTemplate
       (fst (renderBytes example_ExecuteTemplate example_Render ''content'' ''jeremy'' []))
       (layout_yield ''content'' ''jeremy'') = (Markup ''<h1>{{.}}</h1>'', None)
   \<and> HTML_Layout (prepareHTMLRenderOptions example_Render [\<lparr>HTML_Layout = []\<rparr>]) = []
   \<and> renderBytes example_ExecuteTemplate example_Render ''content'' ''jeremy'' [\<lparr>HTML_Layout = []\<rparr>] =
       (example_Render, Inr ''<h1>{{.}}</h1>'')"
proof -
  have l: "HTML_Layout (prepareHTMLRenderOptions example_Render []) \<noteq> []"
    by (simp add: prepareHTMLRenderOptions_def example_Render_def)
  have n: "HTML_Layout (prepareHTMLRenderOptions example_Render [\<lparr>HTML_Layout = []\<rparr>]) = []"
    by (simp add: prepareHTMLRenderOptions_def)
  have p: "t_parsed (r_t (fst (renderBytes example_ExecuteTemplate example_Render ''content'' ''jeremy'' []))) =
      t_parsed (r_t example_Render)"
    by (simp add: renderBytes_result Let_def addYield_def Template_Funcs_def)
  have e: "t_parsed (r_t example_Render) =
      [(''layout'', ''head {{yield}} foot''), (''content'', ''<h1>{{.}}</h1>''), (''templates'', ''Martini'')]"
    "Layout (opt example_Render) = ''layout''"
    by (simp_all add: example_Render_def)
  show ?thesis
    using l n
      renderBytes_layout [of example_Render "[]" example_ExecuteTemplate "''content''" "''jeremy''"]
      renderBytes_layout [of example_Render "[\<lparr>HTML_Layout = []\<rparr>]" example_ExecuteTemplate "''content''" "''jeremy''"]
    by (simp add: example_ExecuteTemplate_def p e)
qed

text \<open>
  C6. When the execution of the template fails, the only call \<open>HTML\<close> makes is
  \<open>http.Error\<close> with the engine's error text and 500: the HTML content type and the
  given status are not written, and the header map is as it was.
\<close>

theorem HTML_failure:
  assumes "snd (renderBytes X r name v htmlOpt) = Inl err"
  shows "snd (HTML X r status name v htmlOpt st) = st\<lparr>calls := calls st @ [HttpError err 500]\<rparr>
       \<and> (\<exists>out. X (r_t (fst (renderBytes X r name v htmlOpt)))
                  (if HTML_Layout (prepareHTMLRenderOptions r htmlOpt) \<noteq> []
                   then HTML_Layout (prepareHTMLRenderOptions r htmlOpt) else name) v = (out, Some err))"
proof -
  obtain r1 where rb: "renderBytes X r name v htmlOpt = (r1, Inl err)"
    using assms by (cases "renderBytes X r name v htmlOpt") simp
  have 1: "snd (HTML X r status name v htmlOpt st) = st\<lparr>calls := calls st @ [HttpError err 500]\<rparr>"
    by (simp add: HTML_def rb http_Error_def)
  have 2: "\<exists>out. X (r_t (fst (renderBytes X r name v htmlOpt)))
                  (if HTML_Layout (prepareHTMLRenderOptions r htmlOpt) \<noteq> []
                   then HTML_Layout (prepareHTMLRenderOptions r htmlOpt) else name) v = (out, Some err)"
    using assms
    by (auto simp: renderBytes_result Let_def split: prod.splits option.splits if_splits)
  from 1 2 show ?thesis by blast
qed

theorem HTML_failure_witness:
  "snd (renderBytes example_ExecuteTemplate example_Render ''nope'' [] [\<lparr>HTML_Layout = []\<rparr>]) =
     Inl ''html/template: nope is undefined''
   \<and> calls (snd (HTML example_ExecuteTemplate example_Render 200 ''nope'' [] [\<lparr>HTML_Layout = []\<rparr>]
       \<lparr>hdr = Map.empty, calls = []\<rparr>)) = [HttpError ''html/template: nope is undefined'' 500]"
proof -
  have h: "snd (renderBytes example_ExecuteTemplate example_Render ''nope'' [] [\<lparr>HTML_Layout = []\<rparr>]) =
     Inl ''html/template: nope is undefined''"
    by (simp add: renderBytes_result Let_def prepareHTMLRenderOptions_def example_ExecuteTemplate_def
        example_Render_def)
  show ?thesis
    using h HTML_failure [OF h, of 200 "\<lparr>hdr = Map.empty, calls = []\<rparr>"] by simp
qed

subsection \<open>Raw data and status\<close>

text \<open>
  An explicitly set \<open>Content-Type\<close> is overridden when its value is the empty string.
\<close>

theorem WriteData_counterexample:
  "hdr \<lparr>hdr = [''Content-Type'' \<mapsto> [[]]], calls = []\<rparr> ''Content-Type'' = Some [[]]
   \<and> hdr (WriteData 200 ''..jpeg data..'' \<lparr>hdr = [''Content-Type'' \<mapsto> [[]]], calls = []\<rparr>)
       ''Content-Type'' = Some [''application/octet-stream'']"
  by (simp add: WriteData_def Header_Get_def ContentType_def ContentBinary_def w_Set_def
      w_WriteHeader_def w_Write_def Header_Set_def Let_def)

text \<open>
  C7, as the code has it. \<open>WriteData\<close> sets \<open>Content-Type\<close> to
  \<open>application/octet-stream\<close> exactly when the header reads as empty, which is the case
  when it is absent; then it writes the status and the bytes as given. A
  \<open>Content-Type\<close> whose first value is not empty is kept as it is.
\<close>

theorem WriteData_response:
  "calls (WriteData status v st) =
     calls st @ (if Header_Get (hdr st) ContentType = [] then [SetHeader ContentType ContentBinary] else [])
       @ [WriteHeader status, Write v]
   \<and> hdr (WriteData status v st) =
       (if Header_Get (hdr st) ContentType = [] then (hdr st)(ContentType \<mapsto> [ContentBinary]) else hdr st)
   \<and> (hdr st ContentType = None \<longrightarrow> Header_Get (hdr st) ContentType = [])
   \<and> (\<forall>ct cts. hdr st ContentType = Some (ct # cts) \<and> ct \<noteq> [] \<longrightarrow>
        hdr (WriteData status v st) = hdr st)"
  by (simp add: WriteData_def Header_Get_def w_Set_def w_WriteHeader_def w_Write_def Header_Set_def Let_def)

theorem WriteData_response_witness:
  "calls (WriteData 200 ''hello there'' \<lparr>hdr = Map.empty, calls = []\<rparr>) =
     [SetHeader ''Content-Type'' ''application/octet-stream'', WriteHeader 200, Write ''hello there'']
   \<and> hdr (WriteData 200 ''..jpeg data..'' \<lparr>hdr = [''Content-Type'' \<mapsto> [''image/jpeg'']], calls = []\<rparr>)
       ''Content-Type'' = Some [''image/jpeg'']
   \<and> calls (WriteData 200 ''..jpeg data..'' \<lparr>hdr = [''Content-Type'' \<mapsto> [''image/jpeg'']], calls = []\<rparr>) =
       [WriteHeader 200, Write ''..jpeg data..'']"
  using WriteData_response [of 200 "''hello there''" "\<lparr>hdr = Map.empty, calls = []\<rparr>"]
    WriteData_response [of 200 "''..jpeg data..''" "\<lparr>hdr = [''Content-Type'' \<mapsto> [''image/jpeg'']], calls = []\<rparr>"]
  by (simp add: Header_Get_def ContentType_def ContentBinary_def)

text \<open>
  C8. \<open>Error\<close> without a message is \<open>Status\<close>: one call, writing the status, and no
  header is touched. \<open>Error\<close> with a message does the same and then writes the first
  message as it is.
\<close>

theorem Error_Status:
  "Error status [] st = Status status st
   \<and> Status status st = st\<lparr>calls := calls st @ [WriteHeader status]\<rparr>
   \<and> Error status (m # ms) st = w_Write m (Status status st)
   \<and> calls (Error status (m # ms) st) = calls st @ [WriteHeader status, Write m]
   \<and> hdr (Error status (m # ms) st) = hdr st"
  by (simp add: Error_def Status_def w_WriteHeader_def w_Write_def Let_def)

theorem Error_Status_witness:
  "calls (Error 404 [] \<lparr>hdr = Map.empty, calls = []\<rparr>) = [WriteHeader 404]
   \<and> calls (Status 404 \<lparr>hdr = Map.empty, calls = []\<rparr>) = [WriteHeader 404]
   \<and> calls (Error 500 [''boom''] \<lparr>hdr = Map.empty, calls = []\<rparr>) = [WriteHeader 500, Write ''boom'']"
  using Error_Status [of 404 "\<lparr>hdr = Map.empty, calls = []\<rparr>" "''boom''" "[]"]
    Error_Status [of 500 "\<lparr>hdr = Map.empty, calls = []\<rparr>" "''boom''" "[]"]
  by (simp add: w_Write_def)

subsection \<open>Defaults\<close>

text \<open>
  C10. \<open>prepareRenderOptions\<close> takes the first of the given options, or the zero value
  when none is given, and replaces an empty \<open>Directory\<close> by \<open>templates\<close>, an empty
  \<open>Extensions\<close> by the single entry \<open>.html\<close> and an empty \<open>HTMLContentType\<close> by
  \<open>text/html\<close>; every other field, and each of these three when it is not empty, is kept.
\<close>

theorem prepareRenderOptions_defaults:
  "prepareRenderOptions options =
     (let o1 = (case options of [] \<Rightarrow> zero_RenderOptions | x # _ \<Rightarrow> x)
      in o1\<lparr>Directory := (if Directory o1 = [] then ''templates'' else Directory o1),
            Extensions := (if Extensions o1 = [] then [''.html''] else Extensions o1),
            HTMLContentType := (if HTMLContentType o1 = [] then ''text/html'' else HTMLContentType o1)\<rparr>)"
  by (cases options) (simp_all add: prepareRenderOptions_def Let_def ContentHTML_def)

theorem prepareRenderOptions_defaults_witness:
  "Directory (prepareRenderOptions ([] :: string RenderOptions list)) = ''templates''
   \<and> Extensions (prepareRenderOptions ([] :: string RenderOptions list)) = [''.html'']
   \<and> HTMLContentType (prepareRenderOptions ([] :: string RenderOptions list)) = ''text/html''
   \<and> prepareRenderOptions
        [(zero_RenderOptions :: string RenderOptions)
           \<lparr>Directory := ''fixtures/basic'', Extensions := [''.tmpl'', ''.html''],
            HTMLContentType := ContentXHTML\<rparr>]
      = (zero_RenderOptions :: string RenderOptions)
           \<lparr>Directory := ''fixtures/basic'', Extensions := [''.tmpl'', ''.html''],
            HTMLContentType := ContentXHTML\<rparr>"
  using prepareRenderOptions_defaults [of "[] :: string RenderOptions list"]
    prepareRenderOptions_defaults [of "[(zero_RenderOptions :: string RenderOptions)
           \<lparr>Directory := ''fixtures/basic'', Extensions := [''.tmpl'', ''.html''],
            HTMLContentType := ContentXHTML\<rparr>]"]
  by (simp add: zero_RenderOptions_def ContentXHTML_def Let_def)

end
